theory Spec2Isabelle
  imports Complex_Main
begin

section \<open>Circle tracking\<close>

text \<open>
  A circle is a row \<open>i\<close> of the detector's array: \<open>i[0]\<close> the centre's x, \<open>i[1]\<close> the
  centre's y, \<open>i[2]\<close> the radius.
  The detector's answer for one frame is the list \<open>circles[0,:]\<close> after the rounding
  \<open>np.uint16(np.around(circles))\<close>, in the detector's output order. \<open>cv2.HoughCircles\<close>
  answers \<open>None\<close> exactly when it finds no circle, and an array with at least one row
  otherwise; the empty list stands for \<open>None\<close>, so \<open>circles != None\<close> is \<open>circles \<noteq> []\<close>.
\<close>

type_synonym circle = "int \<times> int \<times> int"

subsection \<open>stabilization.py: the main loop\<close>

text \<open>
  Lines 65 to 75: \<open>for i in circles[0,:]\<close> over a non-empty list, \<open>i\<close> the current row and
  \<open>js\<close> the rows still to come. The body sets \<open>coord\<close> (and \<open>radius = coord[2]\<close>) to the
  row and appends it to \<open>circle_coords\<close>. The result is the value of \<open>coord\<close> after the
  loop, and the list.
\<close>

fun append_detected :: "circle \<Rightarrow> circle list \<Rightarrow> circle list \<Rightarrow> circle \<times> circle list" where
  "append_detected i [] circle_coords = (i, circle_coords @ [i])"
| "append_detected i (j # js) circle_coords = append_detected j js (circle_coords @ [i])"

text \<open>
  Lines 63 to 83, the tracking part of one iteration of the \<open>while\<close> loop: from the
  detector's answer and \<open>circle_coords\<close> to the \<open>coord\<close> this frame is cropped around
  and the updated \<open>circle_coords\<close>. The branch \<open>len(circle_coords) == 0\<close> has no append.
\<close>

definition track_frame :: "circle list \<Rightarrow> circle list \<Rightarrow> circle \<times> circle list" where
  "track_frame circles circle_coords =
     (case circles of
        i # js \<Rightarrow> append_detected i js circle_coords
      | [] \<Rightarrow>
          if length circle_coords = 0 then ((680, 630, 280), circle_coords)
          else (last circle_coords, circle_coords @ [last circle_coords]))"

text \<open>
  Lines 52 to 107. A run is the list of the frames that \<open>cap.read()\<close> delivers, each with
  the detector's answer for it and whether \<open>cv2.waitKey\<close> saw the key \<open>q\<close> after it.
  When the frames are exhausted (\<open>ret\<close> is false) \<open>np.savetxt\<close> writes \<open>circle_coords\<close>;
  the key \<open>q\<close> leaves the loop with nothing written. The result is the \<open>coord\<close> of every
  processed frame, in order, and the rows written to circle_coords.txt, if any.
  The crop, the mask and the display (lines 84 to 99) do not touch \<open>coord\<close> or
  \<open>circle_coords\<close> and are left out.
\<close>

fun stabilize :: "(circle list \<times> bool) list \<Rightarrow> circle list \<Rightarrow> circle list \<times> circle list option" where
  "stabilize [] circle_coords = ([], Some circle_coords)"
| "stabilize ((circles, q) # rest) circle_coords =
     (case track_frame circles circle_coords of
        (coord, circle_coords') \<Rightarrow>
          if q then ([coord], None)
          else (case stabilize rest circle_coords' of
                  (coords, saved) \<Rightarrow> (coord # coords, saved)))"

subsection \<open>video_analysis.py: find_center_circle_pos\<close>

text \<open>
  Lines 55 and 56: the loop only draws; what matters afterwards is the value its
  variable \<open>i\<close> is left with.
\<close>

fun drawn_last :: "circle \<Rightarrow> circle list \<Rightarrow> circle" where
  "drawn_last i [] = i"
| "drawn_last i (j # js) = drawn_last j js"

text \<open>
  Lines 45 to 58, over the detector's answers for the frames of \<open>clip.iter_frames(fps)\<close>:
  a frame with circles appends the pair of \<open>i[0]\<close> and \<open>i[1]\<close> once, after the drawing
  loop; a frame without circles appends nothing. (This is the loop while its progress
  bar accepts every update; \<open>center_bar_loop\<close> below has the bar.)
\<close>

fun center_loop :: "circle list list \<Rightarrow> (int \<times> int) list \<Rightarrow> (int \<times> int) list" where
  "center_loop [] coords = coords"
| "center_loop (circles # rest) coords =
     (case circles of
        [] \<Rightarrow> center_loop rest coords
      | i # js \<Rightarrow>
          (case drawn_last i js of
             (x, y, r) \<Rightarrow> center_loop rest (coords @ [(x, y)])))"

text \<open>
  What the \<open>else\<close> branch of lines 76 to 83 would take as \<open>coord\<close> from a given
  \<open>circle_coords\<close>: the tracking state that the list carries.
\<close>

definition track_state :: "circle list \<Rightarrow> circle" where
  "track_state circle_coords =
     (if length circle_coords = 0 then (680, 630, 280) else last circle_coords)"

section \<open>Frames\<close>

text \<open>
  A frame is the array \<open>frame[row, column, channel]\<close> that moviepy delivers: rows of
  pixels, a pixel three 8-bit channel values. numpy computes every mean in double
  precision, so no channel arithmetic wraps; the floats of the source are read as reals.
  A numpy array is rectangular: all rows of a frame have the same length.
\<close>

type_synonym pixel = "nat \<times> nat \<times> nat"
type_synonym frame = "pixel list list"

datatype error = IndexError | ZeroDivisionError | ValueError

text \<open>
  Indexing one axis with a Python integer: an index from \<open>-n\<close> to \<open>-1\<close> counts from
  the end, an index below \<open>-n\<close> or from \<open>n\<close> on raises IndexError.
\<close>

definition py_index :: "'a list \<Rightarrow> int \<Rightarrow> error + 'a" where
  "py_index xs i =
     (let n = int (length xs) in
      if 0 \<le> i \<and> i < n then Inr (xs ! nat i)
      else if - n \<le> i \<and> i < 0 then Inr (xs ! nat (n + i))
      else Inl IndexError)"

text \<open>\<open>frame[y_new, x_new, :]\<close>: each axis is indexed on its own.\<close>

definition pixel_at :: "frame \<Rightarrow> int \<Rightarrow> int \<Rightarrow> error + pixel" where
  "pixel_at frame y_new x_new =
     (case py_index frame y_new of
        Inl e \<Rightarrow> Inl e
      | Inr row \<Rightarrow> py_index row x_new)"

text \<open>\<open>.mean(axis=0)\<close> of the three channel values of one pixel.\<close>

definition mean3 :: "real \<times> real \<times> real \<Rightarrow> real" where
  "mean3 b = (case b of (c0, c1, c2) \<Rightarrow> (c0 + c1 + c2) / 3)"

definition as_real :: "pixel \<Rightarrow> real \<times> real \<times> real" where
  "as_real p = (case p of (c0, c1, c2) \<Rightarrow> (real c0, real c1, real c2))"

text \<open>
  \<open>.mean(axis=0)\<close> of an array of shape (n, 3): the mean of each channel over the n
  entries. (Of no entries numpy answers nan with a warning; the division of HOL gives 0.)
\<close>

definition axis0_mean :: "(real \<times> real \<times> real) list \<Rightarrow> real \<times> real \<times> real" where
  "axis0_mean a =
     (sum_list (map fst a) / real (length a),
      sum_list (map (fst \<circ> snd) a) / real (length a),
      sum_list (map (snd \<circ> snd) a) / real (length a))"

definition y_len :: "frame \<Rightarrow> nat" where
  "y_len frame = length frame"

text \<open>
  \<open>frame.shape[1]\<close>, read from the first row. (A frame without rows does not occur: a
  video frame has a positive height.)
\<close>

definition x_len :: "frame \<Rightarrow> nat" where
  "x_len frame = (case frame of [] \<Rightarrow> 0 | row # _ \<Rightarrow> length row)"

text \<open>\<open>range(a, b)\<close>.\<close>

definition py_range :: "int \<Rightarrow> int \<Rightarrow> int list" where
  "py_range a b = [a..b - 1]"

text \<open>
  A loop \<open>for a in as: ... out.append(f(a))\<close> whose body may raise: the first exception
  ends the loop.
\<close>

fun collect :: "('a \<Rightarrow> error + 'b) \<Rightarrow> 'a list \<Rightarrow> error + 'b list" where
  "collect f [] = Inr []"
| "collect f (a # as) =
     (case f a of
        Inl e \<Rightarrow> Inl e
      | Inr b \<Rightarrow> (case collect f as of Inl e \<Rightarrow> Inl e | Inr bs \<Rightarrow> Inr (b # bs)))"

text \<open>
  The same loop under the guard \<open>if i % compress == 0\<close>; the remainder by zero raises
  ZeroDivisionError at the first index. \<open>mod\<close> on \<open>int\<close> is the floored remainder of
  Python.
\<close>

fun collect_stride :: "int \<Rightarrow> (int \<Rightarrow> error + 'b) \<Rightarrow> int list \<Rightarrow> error + 'b list" where
  "collect_stride compress f [] = Inr []"
| "collect_stride compress f (i # is) =
     (if compress = 0 then Inl ZeroDivisionError
      else if i mod compress = 0 then
        (case f i of
           Inl e \<Rightarrow> Inl e
         | Inr b \<Rightarrow> (case collect_stride compress f is of Inl e \<Rightarrow> Inl e | Inr bs \<Rightarrow> Inr (b # bs)))
      else collect_stride compress f is)"

section \<open>Row and column intensities\<close>

text \<open>Lines 164 to 166 (and 239 to 241): the intensity of row \<open>i\<close>.\<close>

definition row_intensity :: "frame \<Rightarrow> nat \<Rightarrow> real" where
  "row_intensity frame i =
     (let a = map as_real (frame ! i); b = axis0_mean a; c = mean3 b in c)"

text \<open>Lines 169 to 171 (and 245 to 247): the intensity of column \<open>j\<close>, \<open>frame[:, j, :]\<close>.\<close>

definition col_intensity :: "frame \<Rightarrow> nat \<Rightarrow> real" where
  "col_intensity frame j =
     (let d = map (\<lambda>row. as_real (row ! j)) frame; e = axis0_mean d; f = mean3 e in f)"

text \<open>
  Lines 160 to 172, the body of the frame loop of \<open>find_xy_intensities\<close>:
  \<open>(x_array_one_frame, y_array_one_frame)\<close>.
\<close>

definition xy_one_frame :: "frame \<Rightarrow> real list \<times> real list" where
  "xy_one_frame frame =
     (let y_array_one_frame = map (row_intensity frame) [0..<y_len frame];
          x_array_one_frame = map (col_intensity frame) [0..<x_len frame]
      in (x_array_one_frame, y_array_one_frame))"

text \<open>Lines 234 to 248, the body of the frame loop of \<open>find_xy_intensities_compressed\<close>.\<close>

definition xy_one_frame_compressed :: "int \<Rightarrow> frame \<Rightarrow> error + real list \<times> real list" where
  "xy_one_frame_compressed compress frame =
     (case collect_stride compress (\<lambda>i. Inr (row_intensity frame (nat i)))
             (py_range 0 (int (y_len frame))) of
        Inl e \<Rightarrow> Inl e
      | Inr y_array_one_frame \<Rightarrow>
          (case collect_stride compress (\<lambda>j. Inr (col_intensity frame (nat j)))
                  (py_range 0 (int (x_len frame))) of
             Inl e \<Rightarrow> Inl e
           | Inr x_array_one_frame \<Rightarrow> Inr (x_array_one_frame, y_array_one_frame)))"

section \<open>Polar sampling\<close>

text \<open>
  The double-precision arithmetic of the platform is a parameter: \<open>math.radians\<close>,
  \<open>math.cos\<close>, \<open>math.sin\<close> and the product of two doubles, each with the double it
  returns read as the real number it stands for. Nothing is assumed of them; what a
  double arithmetic is known to satisfy is a hypothesis where it is needed.
\<close>

record arith =
  math_radians :: "int \<Rightarrow> real"
  math_cos :: "real \<Rightarrow> real"
  math_sin :: "real \<Rightarrow> real"
  times :: "real \<Rightarrow> real \<Rightarrow> real"

text \<open>\<open>int(v)\<close> of a float: towards zero.\<close>

definition py_int :: "real \<Rightarrow> int" where
  "py_int v = (if v < 0 then \<lceil>v\<rceil> else \<lfloor>v\<rfloor>)"

text \<open>Lines 306, 308 and 309 (371 to 373, 438 to 441, 507 to 509): \<open>(x_new, y_new)\<close>.\<close>

definition sample_coord :: "arith \<Rightarrow> int \<Rightarrow> int \<Rightarrow> int \<Rightarrow> int \<Rightarrow> int \<times> int" where
  "sample_coord fl x y r i =
     (let degree = math_radians fl i;
          x_new = x + py_int (times fl (real_of_int r) (math_cos fl degree));
          y_new = y + py_int (times fl (real_of_int r) (math_sin fl degree))
      in (x_new, y_new))"

text \<open>
  Lines 308 to 313: one sample, \<open>intensity_data\<close>. \<open>h\<close> is
  \<open>clip.get_frame(0).shape[0]\<close>, the height of the first frame of the clip.
\<close>

definition sample :: "arith \<Rightarrow> int \<Rightarrow> frame \<Rightarrow> int \<Rightarrow> int \<Rightarrow> int \<Rightarrow> int \<Rightarrow> error + real" where
  "sample fl h frame x y r i =
     (case sample_coord fl x y r i of
        (x_new, y_new) \<Rightarrow>
          (let y_new = (if y_new \<ge> h then h - 1 else y_new) in
           case pixel_at frame y_new x_new of
             Inl e \<Rightarrow> Inl e
           | Inr data \<Rightarrow> Inr (mean3 (as_real data))))"

text \<open>\<open>sum(intensity)/len(intensity)\<close>.\<close>

definition average :: "real list \<Rightarrow> error + real" where
  "average intensity =
     (if length intensity = 0 then Inl ZeroDivisionError
      else Inr (sum_list intensity / real (length intensity)))"

text \<open>Lines 305 to 315: the average along the ray at angle \<open>i\<close>, over \<open>range(1, radius)\<close>.\<close>

definition angle_avg :: "arith \<Rightarrow> int \<Rightarrow> frame \<Rightarrow> int \<Rightarrow> int \<Rightarrow> int \<Rightarrow> int \<Rightarrow> error + real" where
  "angle_avg fl h frame x y radius i =
     (case collect (\<lambda>r. sample fl h frame x y r i) (py_range 1 radius) of
        Inl e \<Rightarrow> Inl e
      | Inr intensity \<Rightarrow> average intensity)"

text \<open>Lines 369 to 379: the average around the ring of radius \<open>r\<close>, over \<open>range(0, 360)\<close>.\<close>

definition radius_avg :: "arith \<Rightarrow> int \<Rightarrow> frame \<Rightarrow> int \<Rightarrow> int \<Rightarrow> int \<Rightarrow> error + real" where
  "radius_avg fl h frame x y r =
     (case collect (\<lambda>i. sample fl h frame x y r i) (py_range 0 360) of
        Inl e \<Rightarrow> Inl e
      | Inr intensity \<Rightarrow> average intensity)"

text \<open>
  \<open>frame_intensity\<close>, the profile of one frame, in the four functions: lines 303 to 316,
  367 to 380, 434 to 448 and 502 to 516.
\<close>

definition angle_frame_intensity ::
  "arith \<Rightarrow> int \<Rightarrow> frame \<Rightarrow> int \<Rightarrow> int \<Rightarrow> int \<Rightarrow> error + real list" where
  "angle_frame_intensity fl h frame x y radius =
     collect (angle_avg fl h frame x y radius) (py_range 0 360)"

definition radius_frame_intensity ::
  "arith \<Rightarrow> int \<Rightarrow> frame \<Rightarrow> int \<Rightarrow> int \<Rightarrow> int \<Rightarrow> error + real list" where
  "radius_frame_intensity fl h frame x y radius =
     collect (radius_avg fl h frame x y) (py_range 1 radius)"

definition angle_frame_intensity_compressed ::
  "arith \<Rightarrow> int \<Rightarrow> frame \<Rightarrow> int \<Rightarrow> int \<Rightarrow> int \<Rightarrow> int \<Rightarrow> error + real list" where
  "angle_frame_intensity_compressed fl h frame x y radius compress =
     collect_stride compress (angle_avg fl h frame x y radius) (py_range 0 360)"

definition radius_frame_intensity_compressed ::
  "arith \<Rightarrow> int \<Rightarrow> frame \<Rightarrow> int \<Rightarrow> int \<Rightarrow> int \<Rightarrow> int \<Rightarrow> error + real list" where
  "radius_frame_intensity_compressed fl h frame x y radius compress =
     collect_stride compress (radius_avg fl h frame x y) (py_range 1 radius)"

text \<open>
  The coordinate as the specification words it, with nearest-integer rounding of the
  offset from the centre, on the same products.
\<close>

definition spec_coord :: "arith \<Rightarrow> int \<Rightarrow> int \<Rightarrow> int \<Rightarrow> int \<Rightarrow> int \<times> int" where
  "spec_coord fl x y r i =
     (x + round (times fl (real_of_int r) (math_cos fl (math_radians fl i))),
      y + round (times fl (real_of_int r) (math_sin fl (math_radians fl i))))"

text \<open>
  The arithmetic without rounding error, for concrete samples: the angles and radial
  steps evaluated with it are ones where every double arithmetic gives the same
  integers (see \<open>diagonal_sample_any_arith\<close> and the others of that kind).
\<close>

definition radians :: "int \<Rightarrow> real" where
  "radians i = real_of_int i * pi / 180"

definition exact_arith :: arith where
  "exact_arith = \<lparr>math_radians = radians, math_cos = cos, math_sin = sin, times = (*)\<rparr>"

text \<open>
  What the lemmas on whole profiles need of an arithmetic: a product \<open>r * cos\<close> or
  \<open>r * sin\<close> is not larger than \<open>r\<close>. Doubles have it: the cosine and the sine are at
  most 1 in absolute value, \<open>r\<close> is a double, and rounding a product is monotone.
\<close>

definition offsets_bounded :: "arith \<Rightarrow> bool" where
  "offsets_bounded fl =
     (\<forall>r v. 0 \<le> r \<longrightarrow>
        \<bar>times fl r (math_cos fl v)\<bar> \<le> r \<and> \<bar>times fl r (math_sin fl v)\<bar> \<le> r)"

section \<open>The functions of video_analysis.py on a clip\<close>

text \<open>
  A clip is what \<open>VideoFileClip(filename)\<close> gives: its duration, \<open>clip.iter_frames(fps)\<close>
  and \<open>clip.get_frame(t)\<close>. The detector \<open>hough\<close> stands for lines 50 to 54:
  \<open>cv2.cvtColor\<close>, \<open>cv2.HoughCircles\<close> with its fixed parameters and the rounding.
  A result is the returned value together with the arrays handed to \<open>np.savetxt\<close> when
  \<open>save\<close> is true (the text formatting is left out). \<open>time.sleep\<close> and the timing
  print-out are left out.
\<close>

record clip =
  duration :: real
  iter_frames :: "real \<Rightarrow> frame list"
  get_frame :: "real \<Rightarrow> frame"

text \<open>
  The progress bar. \<open>progressbar.ProgressBar(max_value=int(length*fps)+1)\<close> fixes the
  maximum; \<open>bar.update(frame_num)\<close> raises ValueError for a value outside
  \<open>[0, max_value]\<close>.
\<close>

definition bar_max :: "arith \<Rightarrow> clip \<Rightarrow> real \<Rightarrow> int" where
  "bar_max fl clip fps = py_int (times fl (duration clip) fps) + 1"

definition bar_update :: "int \<Rightarrow> int \<Rightarrow> error + unit" where
  "bar_update max_value frame_num =
     (if 0 \<le> frame_num \<and> frame_num \<le> max_value then Inr () else Inl ValueError)"

text \<open>
  Lines 45 to 58 with the progress bar: \<open>frame_num += 1\<close> and \<open>bar.update(frame_num)\<close>
  come first in the body, then the detection and the append of \<open>center_loop\<close>.
\<close>

fun center_bar_loop ::
  "int \<Rightarrow> circle list list \<Rightarrow> int \<Rightarrow> (int \<times> int) list \<Rightarrow> error + (int \<times> int) list" where
  "center_bar_loop max_value [] frame_num coords = Inr coords"
| "center_bar_loop max_value (circles # rest) frame_num coords =
     (case bar_update max_value (frame_num + 1) of
        Inl e \<Rightarrow> Inl e
      | Inr u \<Rightarrow>
          (case circles of
             [] \<Rightarrow> center_bar_loop max_value rest (frame_num + 1) coords
           | i # js \<Rightarrow>
               (case drawn_last i js of
                  (x, y, r) \<Rightarrow> center_bar_loop max_value rest (frame_num + 1) (coords @ [(x, y)]))))"

definition find_center_circle_pos ::
  "arith \<Rightarrow> (frame \<Rightarrow> circle list) \<Rightarrow> clip \<Rightarrow> real \<Rightarrow> error + (int \<times> int) list" where
  "find_center_circle_pos fl hough clip fps =
     center_bar_loop (bar_max fl clip fps) (map hough (iter_frames clip fps)) 0 []"



text \<open>
  The frame loop of \<open>find_xy_intensities\<close> (lines 159 to 177) and of
  \<open>find_xy_intensities_compressed\<close> (lines 233 to 253): the profiles of the frame by
  \<open>body\<close>, then \<open>frame_num += 1\<close> and \<open>bar.update(frame_num)\<close>.
\<close>

fun xy_loop ::
  "int \<Rightarrow> (frame \<Rightarrow> error + real list \<times> real list) \<Rightarrow> frame list \<Rightarrow> int \<Rightarrow>
   error + (real list \<times> real list) list" where
  "xy_loop max_value body [] frame_num = Inr []"
| "xy_loop max_value body (frame # rest) frame_num =
     (case body frame of
        Inl e \<Rightarrow> Inl e
      | Inr one_frame \<Rightarrow>
          (case bar_update max_value (frame_num + 1) of
             Inl e \<Rightarrow> Inl e
           | Inr u \<Rightarrow>
               (case xy_loop max_value body rest (frame_num + 1) of
                  Inl e \<Rightarrow> Inl e
                | Inr totals \<Rightarrow> Inr (one_frame # totals))))"

text \<open>
  Lines 178 to 186 (and 254 to 259): the position arrays, which read the first frame's
  profile (IndexError on a clip without frames), the saving and the returned tuple.
\<close>

definition xy_result ::
  "real list list \<Rightarrow> real list list \<Rightarrow> bool \<Rightarrow>
   error + (real list list \<times> real list list \<times> int list \<times> int list) \<times>
           (real list list \<times> real list list) option" where
  "xy_result x_total_array y_total_array save =
     (case py_index x_total_array 0 of
        Inl e \<Rightarrow> Inl e
      | Inr x0 \<Rightarrow>
          (case py_index y_total_array 0 of
             Inl e \<Rightarrow> Inl e
           | Inr y0 \<Rightarrow>
               (let x_position_array = py_range 0 (int (length x0));
                    y_position_array = py_range 0 (int (length y0))
                in Inr ((x_total_array, y_total_array, x_position_array, y_position_array),
                        if save then Some (x_total_array, y_total_array) else None))))"

definition find_xy_intensities ::
  "arith \<Rightarrow> clip \<Rightarrow> bool \<Rightarrow> real \<Rightarrow>
   error + (real list list \<times> real list list \<times> int list \<times> int list) \<times>
           (real list list \<times> real list list) option" where
  "find_xy_intensities fl clip save fps =
     (case xy_loop (bar_max fl clip fps) (\<lambda>frame. Inr (xy_one_frame frame))
             (iter_frames clip fps) 0 of
        Inl e \<Rightarrow> Inl e
      | Inr totals \<Rightarrow> xy_result (map fst totals) (map snd totals) save)"


text \<open>
  The frame loop of the four polar functions (lines 300 to 320): the centre of frame
  \<open>frame_num\<close> is \<open>coords[frame_num]\<close>, \<open>body\<close> computes \<open>frame_intensity\<close>, then
  \<open>frame_num += 1\<close> and \<open>bar.update(frame_num)\<close>.
\<close>

fun profile_loop ::
  "int \<Rightarrow> (frame \<Rightarrow> int \<Rightarrow> int \<Rightarrow> error + real list) \<Rightarrow> (int \<times> int) list \<Rightarrow> frame list \<Rightarrow> int \<Rightarrow>
   error + real list list" where
  "profile_loop max_value body coords [] frame_num = Inr []"
| "profile_loop max_value body coords (frame # rest) frame_num =
     (case py_index coords frame_num of
        Inl e \<Rightarrow> Inl e
      | Inr (x, y) \<Rightarrow>
          (case body frame x y of
             Inl e \<Rightarrow> Inl e
           | Inr frame_intensity \<Rightarrow>
               (case bar_update max_value (frame_num + 1) of
                  Inl e \<Rightarrow> Inl e
                | Inr u \<Rightarrow>
                    (case profile_loop max_value body coords rest (frame_num + 1) of
                       Inl e \<Rightarrow> Inl e
                     | Inr intensity_tot \<Rightarrow> Inr (frame_intensity # intensity_tot)))))"

definition polar_result ::
  "error + real list list \<Rightarrow> bool \<Rightarrow> error + real list list \<times> real list list option" where
  "polar_result looped save =
     (case looped of
        Inl e \<Rightarrow> Inl e
      | Inr intensity_tot \<Rightarrow> Inr (intensity_tot, if save then Some intensity_tot else None))"

text \<open>
  Lines 294 to 323 and their three siblings: the bar is made from the \<open>fps\<close> of the
  call, the centres come from \<open>find_center_circle_pos(filename, fps=1)\<close>, which has a
  bar of its own, and the frames from \<open>clip.iter_frames(fps=1)\<close>.
\<close>

definition polar_frames ::
  "arith \<Rightarrow> (frame \<Rightarrow> circle list) \<Rightarrow> clip \<Rightarrow> real \<Rightarrow> bool \<Rightarrow>
   (int \<Rightarrow> frame \<Rightarrow> int \<Rightarrow> int \<Rightarrow> error + real list) \<Rightarrow>
   error + real list list \<times> real list list option" where
  "polar_frames fl hough clip fps save body =
     (let max_value = bar_max fl clip fps in
      case find_center_circle_pos fl hough clip 1 of
        Inl e \<Rightarrow> Inl e
      | Inr coords \<Rightarrow>
          (let h = int (length (get_frame clip 0))
           in polar_result (profile_loop max_value (body h) coords (iter_frames clip 1) 0) save))"



definition find_angle_intensity_compressed ::
  "arith \<Rightarrow> (frame \<Rightarrow> circle list) \<Rightarrow> clip \<Rightarrow> int \<Rightarrow> int \<Rightarrow> real \<Rightarrow> bool \<Rightarrow>
   error + real list list \<times> real list list option" where
  "find_angle_intensity_compressed fl hough clip radius compress fps save =
     polar_frames fl hough clip fps save
       (\<lambda>h frame x y. angle_frame_intensity_compressed fl h frame x y radius compress)"

definition find_radius_intensity_compressed ::
  "arith \<Rightarrow> (frame \<Rightarrow> circle list) \<Rightarrow> clip \<Rightarrow> int \<Rightarrow> int \<Rightarrow> real \<Rightarrow> bool \<Rightarrow>
   error + real list list \<times> real list list option" where
  "find_radius_intensity_compressed fl hough clip radius compress fps save =
     polar_frames fl hough clip fps save
       (\<lambda>h frame x y. radius_frame_intensity_compressed fl h frame x y radius compress)"

section \<open>Example frames and clips\<close>

definition frame_2x3 :: frame where
  "frame_2x3 = [ [(0, 0, 0), (3, 3, 3), (6, 6, 6)], [(30, 60, 90), (9, 9, 9), (12, 12, 12)] ]"

definition frame_3x3 :: frame where
  "frame_3x3 =
     [ [(0, 0, 0), (3, 3, 3), (6, 6, 6)],
      [(9, 9, 9), (12, 12, 12), (15, 15, 15)],
      [(18, 18, 18), (21, 21, 21), (24, 24, 24)] ]"

definition grey_9x9 :: frame where
  "grey_9x9 = replicate 9 (replicate 9 (6, 6, 6))"

text \<open>
  Clips of four seconds whose \<open>iter_frames\<close> honours the rate it is given: four frames
  at one frame a second.
\<close>

definition clip_4s :: clip where
  "clip_4s =
     \<lparr>duration = 4,
      iter_frames = (\<lambda>fps. replicate (nat \<lceil>4 * fps\<rceil>) frame_2x3),
      get_frame = (\<lambda>t. frame_2x3)\<rparr>"

definition grey_clip_4s :: clip where
  "grey_clip_4s =
     \<lparr>duration = 4,
      iter_frames = (\<lambda>fps. replicate (nat \<lceil>4 * fps\<rceil>) grey_9x9),
      get_frame = (\<lambda>t. grey_9x9)\<rparr>"


section \<open>Properties of the tracker\<close>

lemma append_detected_eq:
  "append_detected i js ccs = (last (i # js), ccs @ i # js)"
  by (induction i js ccs rule: append_detected.induct) simp_all

lemma drawn_last_eq: "drawn_last i js = last (i # js)"
  by (induction i js rule: drawn_last.induct) simp_all

lemma track_frame_detected:
  "circles \<noteq> [] \<Longrightarrow> track_frame circles ccs = (last circles, ccs @ circles)"
  by (cases circles) (simp_all add: track_frame_def append_detected_eq)

lemma center_loop_append:
  "center_loop (fs @ gs) coords = center_loop gs (center_loop fs coords)"
  by (induction fs coords rule: center_loop.induct) (simp_all split: list.splits prod.splits)

lemma track_frame_state:
  "track_frame circles ccs = (coord, ccs') \<Longrightarrow> track_state ccs' = coord"
  by (cases circles)
     (auto simp: track_frame_def append_detected_eq track_state_def split: if_splits)

lemma track_frame_none: "fst (track_frame [] ccs) = track_state ccs"
  by (simp add: track_frame_def track_state_def)

lemma stabilize_first:
  "0 < length (fst (stabilize fs ccs)) \<Longrightarrow>
   fst (stabilize fs ccs) ! 0 = fst (track_frame (fst (fs ! 0)) ccs)"
  by (cases fs) (auto split: prod.splits)

text \<open>
  In stabilization.py a frame without circles that is not the first gets the \<open>coord\<close>
  of the frame before it: the three entries are carried forward unchanged.
\<close>

lemma stabilize_carry_forward:
  "Suc k < length (fst (stabilize fs ccs)) \<Longrightarrow> fst (fs ! Suc k) = [] \<Longrightarrow>
   fst (stabilize fs ccs) ! Suc k = fst (stabilize fs ccs) ! k"
proof (induction fs arbitrary: ccs k)
  case Nil
  then show ?case by simp
next
  case (Cons f fs)
  obtain circles q where f: "f = (circles, q)"
    by (cases f)
  obtain coord ccs' where t: "track_frame circles ccs = (coord, ccs')"
    by (cases "track_frame circles ccs")
  obtain coords saved where s: "stabilize fs ccs' = (coords, saved)"
    by (cases "stabilize fs ccs'")
  from Cons.prems(1) f t have "\<not> q"
    by (auto split: if_splits)
  with f t s have whole: "fst (stabilize (f # fs) ccs) = coord # coords"
    by simp
  show ?case
  proof (cases k)
    case 0
    from Cons.prems whole 0 s
    have len: "0 < length (fst (stabilize fs ccs'))" and none: "fst (fs ! 0) = []"
      by auto
    have "coords ! 0 = fst (track_frame [] ccs')"
      using stabilize_first [OF len] none s by simp
    also have "\<dots> = coord"
      using track_frame_state [OF t] by (simp add: track_frame_none)
    finally show ?thesis
      using whole 0 by simp
  next
    case (Suc j)
    from Cons.prems whole Suc s
    have "Suc j < length (fst (stabilize fs ccs'))" "fst (fs ! Suc j) = []"
      by auto
    from Cons.IH [OF this] show ?thesis
      using whole Suc s by simp
  qed
qed

text \<open>
  Claim C1. A frame \<open>k > 0\<close> without circles should get exactly the estimate of frame
  \<open>k - 1\<close>. The loop of stabilization.py does that (\<open>stabilize_carry_forward\<close>).
  \<open>find_center_circle_pos\<close> does not: it appends nothing for such a frame, so the list it
  returns is shorter than the clip, and \<open>coords[frame_num]\<close>, which the four profile
  functions take as the centre of frame \<open>frame_num\<close>, is the centre of a later frame or
  raises IndexError. With three frames, the middle one without circles: frame 0 is
  sampled around (100, 100), frame 1 around (140, 90), and frame 2 raises.
\<close>

theorem C1_find_center_circle_pos_drops_missed_frame:
  "center_loop [ [(100, 100, 50)], [], [(140, 90, 50)] ] [] = [(100, 100), (140, 90)] \<and>
   py_index (center_loop [ [(100, 100, 50)], [], [(140, 90, 50)] ] []) 0 = Inr (100, 100) \<and>
   py_index (center_loop [ [(100, 100, 50)], [], [(140, 90, 50)] ] []) 1 = Inr (140, 90) \<and>
   py_index (center_loop [ [(100, 100, 50)], [], [(140, 90, 50)] ] []) 2 = Inl IndexError"
  by (simp add: py_index_def)

text \<open>
  Claim C2. At a frame where the detector returns one or more circles, the estimate is
  the last circle of the detector's output: in stabilization.py \<open>coord\<close> ends as the last
  circle and the tracking state that \<open>circle_coords\<close> carries afterwards is that circle;
  in \<open>find_center_circle_pos\<close> the one entry appended for the frame, after any frames
  before it, is the centre of the last circle.
\<close>

theorem C2_last_detected_circle_is_recorded:
  "circles \<noteq> [] \<Longrightarrow>
   fst (track_frame circles circle_coords) = last circles \<and>
   track_state (snd (track_frame circles circle_coords)) = last circles \<and>
   center_loop (before @ [circles]) [] =
     center_loop before [] @ [(fst (last circles), fst (snd (last circles)))]"
  by (cases circles)
     (simp_all add: track_frame_detected track_state_def center_loop_append drawn_last_eq
        split: prod.splits)

theorem C2_last_detected_circle_is_recorded_witness:
  "[(100, 100, 50), (300, 200, 40)] \<noteq> ([] :: circle list) \<and>
   fst (track_frame [(100, 100, 50), (300, 200, 40)] [(9, 9, 9)]) = (300, 200, 40) \<and>
   track_state (snd (track_frame [(100, 100, 50), (300, 200, 40)] [(9, 9, 9)])) = (300, 200, 40) \<and>
   center_loop ([ [(1, 1, 1)] ] @ [ [(100, 100, 50), (300, 200, 40)] ]) [] = [(1, 1), (300, 200)]"
  using C2_last_detected_circle_is_recorded
    [of "[(100, 100, 50), (300, 200, 40)]" "[(9, 9, 9)]" "[ [(1, 1, 1)] ]"]
  by simp

text \<open>
  Claim C7. circle_coords.txt should hold one row per processed frame, row \<open>k\<close> the
  estimate of frame \<open>k\<close>. A first frame without circles is cropped around
  (680, 630, 280) but leaves no row, so a run of two frames, the second with one circle,
  writes a single row, and row 0 is the estimate of frame 1.
\<close>

theorem C7_first_missed_frame_leaves_no_row:
  "stabilize [([], False), ([(100, 100, 50)], False)] [] =
     ([(680, 630, 280), (100, 100, 50)], Some [(100, 100, 50)])"
  by (simp add: track_frame_def)

text \<open>
  The file also gets a row for every circle of a frame, not one row for the frame: the
  append of line 75 is inside the loop over the circles.
\<close>

lemma stabilize_row_per_circle:
  "stabilize [([(100, 100, 50), (300, 200, 40)], False)] [] =
     ([(300, 200, 40)], Some [(100, 100, 50), (300, 200, 40)])"
  by (simp add: track_frame_def)

text \<open>
  Claim C8. If the detector returns no circle for frame 0, the estimate used for frame 0
  is (680, 630, 280), whatever frames follow and whether or not the run is interrupted.
\<close>

theorem C8_default_estimate_for_first_frame:
  "fst (stabilize (([], q) # rest) []) ! 0 = (680, 630, 280)"
  by (simp add: track_frame_def split: prod.splits)

section \<open>Properties of the sampled coordinate\<close>

lemma radians_45: "radians 45 = pi / 4"
  by (simp add: radians_def)

lemma sqrt2_bounds: "1 < sqrt 2" "sqrt 2 < 2"
  by (simp_all add: real_less_lsqrt)

lemma py_int_trunc:
  "\<bar>real_of_int (py_int v)\<bar> \<le> \<bar>v\<bar> \<and>
   \<bar>v\<bar> < \<bar>real_of_int (py_int v)\<bar> + 1 \<and>
   0 \<le> real_of_int (py_int v) * v"
proof (cases "v < 0")
  case True
  then have "real_of_int \<lceil>v\<rceil> \<le> 0"
    by (simp add: ceiling_le_iff)
  moreover have "v \<le> real_of_int \<lceil>v\<rceil>" "real_of_int \<lceil>v\<rceil> < v + 1"
    by linarith+
  ultimately show ?thesis
    using True by (simp add: py_int_def mult_nonpos_nonpos)
next
  case False
  then have "0 \<le> real_of_int \<lfloor>v\<rfloor>"
    by simp
  moreover have "real_of_int \<lfloor>v\<rfloor> \<le> v" "v < real_of_int \<lfloor>v\<rfloor> + 1"
    by linarith+
  ultimately show ?thesis
    using False by (simp add: py_int_def)
qed

lemma py_int_small: "\<bar>p\<bar> < 1 \<Longrightarrow> py_int p = 0"
  by (auto simp: py_int_def floor_eq_iff ceiling_eq_iff)

lemma round_upper_half: "1 / 2 \<le> p \<Longrightarrow> p < 1 \<Longrightarrow> round p = 1"
  unfolding round_def by (intro floor_unique) simp_all

text \<open>
  At radial step 1 and 45 degrees, any arithmetic whose two products lie in
  \<open>[1/2, 1)\<close> (in doubles both are 0.7071...) truncates the offsets to 0 where
  nearest-integer rounding gives 1.
\<close>

lemma diagonal_sample_any_arith:
  assumes "1 / 2 \<le> times fl 1 (math_cos fl (math_radians fl 45))"
    and "times fl 1 (math_cos fl (math_radians fl 45)) < 1"
    and "1 / 2 \<le> times fl 1 (math_sin fl (math_radians fl 45))"
    and "times fl 1 (math_sin fl (math_radians fl 45)) < 1"
  shows "sample_coord fl 0 0 1 45 = (0, 0) \<and> spec_coord fl 0 0 1 45 = (1, 1)"
  using assms
  by (simp add: sample_coord_def spec_coord_def Let_def py_int_small round_upper_half)

text \<open>
  Claim C3, as stated: the sampled coordinate is the centre plus the offset rounded to
  the nearest integer. At radial step 1 and 45 degrees the offsets are about 0.707: the
  code samples the centre itself, nearest-integer rounding would give (1, 1).
\<close>

theorem C3_rounding_counterexample:
  "sample_coord exact_arith 0 0 1 45 = (0, 0) \<and> spec_coord exact_arith 0 0 1 45 = (1, 1)"
proof -
  have "1 / 2 \<le> sqrt 2 / 2" "sqrt 2 / 2 < 1"
    using sqrt2_bounds by linarith+
  then show ?thesis
    by (intro diagonal_sample_any_arith) (simp_all add: exact_arith_def radians_45 cos_45 sin_45)
qed

text \<open>
  Claim C3, amended: each offset from the centre is the double product \<open>r * cos \<theta>\<close>
  (or \<open>r * sin \<theta>\<close>), as the arithmetic computes it, truncated towards zero: it is not
  larger in absolute value than the product, less than 1 away from it, and never of the
  opposite sign. This holds for every arithmetic.
\<close>

theorem C3_offset_truncates_towards_zero:
  "(\<bar>real_of_int (fst (sample_coord fl x y r i) - x)\<bar>
      \<le> \<bar>times fl (real_of_int r) (math_cos fl (math_radians fl i))\<bar> \<and>
    \<bar>times fl (real_of_int r) (math_cos fl (math_radians fl i))\<bar>
      < \<bar>real_of_int (fst (sample_coord fl x y r i) - x)\<bar> + 1 \<and>
    0 \<le> real_of_int (fst (sample_coord fl x y r i) - x) *
          times fl (real_of_int r) (math_cos fl (math_radians fl i))) \<and>
   (\<bar>real_of_int (snd (sample_coord fl x y r i) - y)\<bar>
      \<le> \<bar>times fl (real_of_int r) (math_sin fl (math_radians fl i))\<bar> \<and>
    \<bar>times fl (real_of_int r) (math_sin fl (math_radians fl i))\<bar>
      < \<bar>real_of_int (snd (sample_coord fl x y r i) - y)\<bar> + 1 \<and>
    0 \<le> real_of_int (snd (sample_coord fl x y r i) - y) *
          times fl (real_of_int r) (math_sin fl (math_radians fl i)))"
  using py_int_trunc [of "times fl (real_of_int r) (math_cos fl (math_radians fl i))"]
        py_int_trunc [of "times fl (real_of_int r) (math_sin fl (math_radians fl i))"]
  by (simp add: sample_coord_def Let_def)

lemma sample_pixel:
  "sample fl h frame x y r i =
     map_sum id (mean3 \<circ> as_real)
       (pixel_at frame (min (snd (sample_coord fl x y r i)) (h - 1))
          (fst (sample_coord fl x y r i)))"
  by (cases "sample_coord fl x y r i") (auto simp: sample_def min_def Let_def split: sum.splits)

text \<open>
  Claim C4. The pixel read for a sample is the one at row \<open>y_new\<close>, replaced by
  \<open>h - 1\<close> when \<open>y_new \<ge> h\<close> (that is, \<open>min y_new (h - 1)\<close>), and at column
  \<open>x_new\<close> as computed: nothing is done to \<open>x_new\<close>, and a \<open>y_new\<close> below the height is
  used as it is.
\<close>

theorem C4_only_y_is_clamped_from_above:
  "sample fl h frame x y r i =
     map_sum id (mean3 \<circ> as_real)
       (pixel_at frame (min (snd (sample_coord fl x y r i)) (h - 1))
          (fst (sample_coord fl x y r i)))"
  by (cases "sample_coord fl x y r i") (auto simp: sample_def min_def Let_def split: sum.splits)

section \<open>Columns outside the frame\<close>

lemma py_index_error: "py_index xs i = Inl e \<Longrightarrow> e = IndexError"
  by (auto simp: py_index_def Let_def split: if_splits)

lemma py_index_member: "py_index xs i = Inr a \<Longrightarrow> a \<in> set xs"
  by (auto simp: py_index_def Let_def split: if_splits)

lemma py_index_outside:
  "int (length xs) \<le> i \<or> i < - int (length xs) \<Longrightarrow> py_index xs i = Inl IndexError"
  by (auto simp: py_index_def Let_def)

text \<open>
  On a frame whose rows are \<open>w\<close> pixels wide, for every arithmetic: a sample with
  \<open>x_new \<ge> w\<close> or \<open>x_new < -w\<close> raises IndexError; a sample with
  \<open>-w \<le> x_new < 0\<close> whose row index is accepted does not fail: it is the pixel of
  column \<open>x_new + w\<close> of that row, counted from the opposite edge.
\<close>

lemma column_out_of_range:
  assumes "\<forall>row \<in> set frame. int (length row) = w"
  shows "(w \<le> fst (sample_coord fl x y r i) \<or> fst (sample_coord fl x y r i) < - w \<longrightarrow>
            sample fl h frame x y r i = Inl IndexError) \<and>
         (- w \<le> fst (sample_coord fl x y r i) \<and> fst (sample_coord fl x y r i) < 0 \<and>
          py_index frame (min (snd (sample_coord fl x y r i)) (h - 1)) = Inr row \<longrightarrow>
            sample fl h frame x y r i =
              Inr (mean3 (as_real (row ! nat (fst (sample_coord fl x y r i) + w)))))"
proof (cases "py_index frame (min (snd (sample_coord fl x y r i)) (h - 1))")
  case (Inl e)
  then show ?thesis
    using py_index_error [OF Inl] by (simp add: sample_pixel pixel_at_def)
next
  case (Inr row')
  with assms have "int (length row') = w"
    using py_index_member [OF Inr] by simp
  then show ?thesis
    using Inr py_index_outside [of row' "fst (sample_coord fl x y r i)"]
    by (auto simp: sample_pixel pixel_at_def py_index_def Let_def algebra_simps)
qed



lemma radians_0: "radians 0 = 0"
  by (simp add: radians_def)


lemma coord_east: "sample_coord exact_arith 2 1 1 0 = (3, 1)"
  by (simp add: sample_coord_def exact_arith_def radians_0 py_int_def)


text \<open>A column from the width on does raise: centre (2, 1), radial step 1, 0 degrees.\<close>

lemma column_beyond_width_raises:
  "fst (sample_coord exact_arith 2 1 1 0) = 3 \<and>
   sample exact_arith 3 frame_3x3 2 1 1 0 = Inl IndexError"
  by (simp add: coord_east sample_def pixel_at_def py_index_def frame_3x3_def)

section \<open>Iteration that keeps every compress-th index\<close>

lemma ceil_div_cases:
  fixes n c :: int
  assumes "0 < c"
  shows "(n + c - 1) div c = (if n mod c = 0 then n div c else n div c + 1)"
proof -
  define q where "q = n div c"
  define r where "r = n mod c"
  have n: "n = r + q * c" by (simp add: q_def r_def)
  have r: "0 \<le> r" "r < c" using assms by (simp_all add: r_def)
  have c0: "c \<noteq> 0" using assms by simp
  have split: "(n + c - 1) div c = q + (r + c - 1) div c"
  proof -
    have "n + c - 1 = (r + c - 1) + c * q" using n by simp
    then have "(n + c - 1) div c = ((r + c - 1) + c * q) div c" by (rule arg_cong)
    also have "\<dots> = q + (r + c - 1) div c" by (rule div_mult_self2 [OF c0])
    finally show ?thesis .
  qed
  show ?thesis
  proof (cases "r = 0")
    case True
    have "(c - 1) div c = 0" using assms by (intro div_pos_pos_trivial) simp_all
    then show ?thesis using True split by (simp add: r_def q_def)
  next
    case False
    have "(r - 1 + c) div c = (r - 1) div c + 1"
      using c0 by simp
    moreover have "(r - 1) div c = 0" using r False by (intro div_pos_pos_trivial) simp_all
    ultimately have "(r + c - 1) div c = 1" by (simp add: algebra_simps)
    then show ?thesis using False split by (simp add: r_def q_def)
  qed
qed

lemma py_range_Suc: "py_range 0 (int (Suc n)) = py_range 0 (int n) @ [int n]"
  using upto_rec2 [of 0 "int n"] by (simp add: py_range_def)

lemma stride_indices:
  assumes "0 < c"
  shows "filter (\<lambda>i. i mod c = 0) (py_range 0 (int n)) =
         map (\<lambda>k. int k * c) [0..<nat ((int n + c - 1) div c)]"
proof (induction n)
  case 0
  have "(c - 1) div c = 0" using assms by (intro div_pos_pos_trivial) simp_all
  then show ?case by (simp add: py_range_def)
next
  case (Suc n)
  have next_div: "(int (Suc n) + c - 1) div c = int n div c + 1"
    using assms by (simp add: algebra_simps)
  have nonneg: "0 \<le> int n div c"
    using assms by (simp add: pos_imp_zdiv_nonneg_iff)
  have more: "nat (int n div c + 1) = Suc (nat (int n div c))"
    using nonneg by (simp add: nat_add_distrib)
  show ?case
  proof (cases "int n mod c = 0")
    case True
    then have m: "(int n + c - 1) div c = int n div c"
      using ceil_div_cases [OF assms, of "int n"] by simp
    have whole: "int (nat (int n div c)) * c = int n"
      using True nonneg by (simp add: mod_eq_0_iff_dvd)
    have "filter (\<lambda>i. i mod c = 0) (py_range 0 (int (Suc n))) =
          map (\<lambda>k. int k * c) [0..<nat (int n div c)] @ [int n]"
      unfolding py_range_Suc using True Suc.IH m by simp
    also have "\<dots> = map (\<lambda>k. int k * c) [0..<Suc (nat (int n div c))]"
      using whole by simp
    finally show ?thesis
      unfolding next_div more .
  next
    case False
    then have m: "(int n + c - 1) div c = int n div c + 1"
      using ceil_div_cases [OF assms, of "int n"] by simp
    have "filter (\<lambda>i. i mod c = 0) (py_range 0 (int (Suc n))) =
          map (\<lambda>k. int k * c) [0..<nat (int n div c + 1)]"
      unfolding py_range_Suc using False Suc.IH m by simp
    then show ?thesis
      unfolding next_div .
  qed
qed

lemma collect_stride_filter:
  "compress \<noteq> 0 \<Longrightarrow>
   collect_stride compress f is = collect f (filter (\<lambda>i. i mod compress = 0) is)"
  by (induction "is") (simp_all split: sum.splits)

lemma collect_length: "collect f xs = Inr ys \<Longrightarrow> length ys = length xs"
  by (induction xs arbitrary: ys) (auto split: sum.splits)

lemma collect_total: "collect (\<lambda>a. Inr (g a)) xs = Inr (map g xs)"
  by (induction xs) simp_all

lemma collect_const:
  "(\<And>a. a \<in> set xs \<Longrightarrow> f a = Inr b) \<Longrightarrow> collect f xs = Inr (replicate (length xs) b)"
  by (induction xs) simp_all

lemma py_range_0_Cons: "1 \<le> n \<Longrightarrow> py_range 0 n = 0 # py_range 1 n"
  using upto_rec1 [of 0 "n - 1"] by (simp add: py_range_def)

lemma stride_count_0:
  assumes "0 < c" "0 \<le> n"
  shows "length (filter (\<lambda>i. i mod c = 0) (py_range 0 n)) = nat ((n + c - 1) div c)"
  using stride_indices [OF assms(1), of "nat n"] assms(2) by simp

lemma stride_count_1:
  assumes "0 < c" "1 \<le> n"
  shows "length (filter (\<lambda>i. i mod c = 0) (py_range 1 n)) = nat ((n - 1) div c)"
proof -
  have "(n + c - 1) div c = (n - 1) div c + 1"
    using assms(1) div_add_self2 [of c "n - 1"] by (simp add: algebra_simps)
  moreover have "0 \<le> (n - 1) div c"
    using assms by (simp add: pos_imp_zdiv_nonneg_iff)
  ultimately show ?thesis
    using stride_count_0 [of c n] assms by (simp add: py_range_0_Cons nat_add_distrib)
qed

lemma stride_profile:
  assumes "0 < c"
  shows "collect_stride c (\<lambda>i. Inr (g (nat i))) (py_range 0 (int n)) =
         Inr (map (\<lambda>k. g (k * nat c)) [0..<nat ((int n + c - 1) div c)])"
proof -
  have "nat (int k * c) = k * nat c" for k
    using assms by (simp add: nat_mult_distrib)
  then show ?thesis
    using assms
    by (simp add: collect_stride_filter collect_total stride_indices comp_def)
qed

lemma stride_in_range:
  assumes "0 < c" "k < nat ((int n + c - 1) div c)"
  shows "k * nat c < n"
proof -
  have "int k * c \<in> set (map (\<lambda>k. int k * c) [0..<nat ((int n + c - 1) div c)])"
    using assms(2) by auto
  then have "int k * c \<in> set (py_range 0 (int n))"
    unfolding stride_indices [OF assms(1), symmetric] by simp
  then have "int k * c < int n"
    by (simp add: py_range_def)
  moreover have "int (k * nat c) = int k * c"
    using assms(1) by simp
  ultimately show ?thesis
    by linarith
qed

text \<open>
  Claim C9. For \<open>compress \<ge> 1\<close> the compressed row and column profiles of a frame are
  computed without error, have \<open>ceil(N / compress)\<close> entries for \<open>N\<close> rows (columns),
  and entry \<open>k\<close> is entry \<open>k * compress\<close> of the uncompressed profile of the same
  frame: a stride subsample, no averaging of groups.
\<close>

theorem C9_compressed_profile_is_stride_subsample:
  assumes "1 \<le> compress"
  shows "\<exists>xs ys. xy_one_frame_compressed compress frame = Inr (xs, ys) \<and>
     length ys = nat ((int (y_len frame) + compress - 1) div compress) \<and>
     length xs = nat ((int (x_len frame) + compress - 1) div compress) \<and>
     (\<forall>k < length ys. k * nat compress < length (snd (xy_one_frame frame)) \<and>
         ys ! k = snd (xy_one_frame frame) ! (k * nat compress)) \<and>
     (\<forall>k < length xs. k * nat compress < length (fst (xy_one_frame frame)) \<and>
         xs ! k = fst (xy_one_frame frame) ! (k * nat compress))"
proof -
  from assms have c: "0 < compress" by simp
  show ?thesis
    using stride_in_range [OF c]
    by (simp add: xy_one_frame_compressed_def xy_one_frame_def stride_profile [OF c])
qed

theorem C9_compressed_profile_is_stride_subsample_witness:
  "(1::int) \<le> 2 \<and>
   xy_one_frame_compressed 2 frame_2x3 = Inr ([30, 9], [3]) \<and>
   xy_one_frame frame_2x3 = ([30, 6, 9], [3, 27]) \<and>
   [30, 9 :: real] ! 1 = [30, 6, 9] ! (1 * nat 2)"
  using C9_compressed_profile_is_stride_subsample [of 2 frame_2x3]
  by (simp add: xy_one_frame_compressed_def xy_one_frame_def frame_2x3_def y_len_def x_len_def
        row_intensity_def col_intensity_def axis0_mean_def as_real_def mean3_def py_range_def
        upto.simps upt_rec)

section \<open>Lengths of the polar profiles\<close>

lemma exact_bounded: "offsets_bounded exact_arith"
  by (simp add: offsets_bounded_def exact_arith_def abs_mult mult_left_le)

lemma offset_bound:
  assumes "\<bar>p\<bar> \<le> real_of_int r"
  shows "- r \<le> py_int p \<and> py_int p \<le> r"
proof -
  have "\<bar>real_of_int (py_int p)\<bar> \<le> real_of_int r"
    using py_int_trunc [of p] assms by linarith
  then show ?thesis
    by linarith
qed

lemma sample_coord_near:
  assumes "offsets_bounded fl" "0 \<le> r"
  shows "x - r \<le> fst (sample_coord fl x y r i) \<and> fst (sample_coord fl x y r i) \<le> x + r \<and>
         y - r \<le> snd (sample_coord fl x y r i) \<and> snd (sample_coord fl x y r i) \<le> y + r"
proof -
  from assms have
    "\<bar>times fl (real_of_int r) (math_cos fl (math_radians fl i))\<bar> \<le> real_of_int r"
    "\<bar>times fl (real_of_int r) (math_sin fl (math_radians fl i))\<bar> \<le> real_of_int r"
    by (simp_all add: offsets_bounded_def)
  from offset_bound [OF this(1)] offset_bound [OF this(2)] show ?thesis
    by (simp add: sample_coord_def Let_def)
qed

lemma sample_const:
  assumes "offsets_bounded fl" "0 \<le> r" "r \<le> x" "x + r < w" "r \<le> y" "y + r < h"
  shows "sample fl h (replicate (nat h) (replicate (nat w) p)) x y r i = Inr (mean3 (as_real p))"
proof -
  obtain x_new y_new where c: "sample_coord fl x y r i = (x_new, y_new)"
    by (cases "sample_coord fl x y r i")
  with sample_coord_near [OF assms(1,2), of x y i] assms
  have b: "0 \<le> x_new" "x_new < w" "0 \<le> y_new" "y_new < h"
    by simp_all
  then show ?thesis
    by (simp add: sample_def c pixel_at_def py_index_def)
qed

lemma average_replicate: "0 < n \<Longrightarrow> average (replicate n v) = Inr v"
  by (simp add: average_def sum_list_replicate)

lemma length_py_range: "length (py_range a b) = nat (b - a)"
  by (simp add: py_range_def)

lemma set_py_range: "set (py_range a b) = {a..<b}"
  by (auto simp: py_range_def)

lemma angle_avg_const:
  assumes "offsets_bounded fl"
    and "2 \<le> radius" "radius - 1 \<le> x" "x + radius - 1 < w" "radius - 1 \<le> y" "y + radius - 1 < h"
  shows "angle_avg fl h (replicate (nat h) (replicate (nat w) p)) x y radius i =
           Inr (mean3 (as_real p))"
proof -
  let ?frame = "replicate (nat h) (replicate (nat w) p)"
  have "sample fl h ?frame x y r i = Inr (mean3 (as_real p))"
    if "r \<in> set (py_range 1 radius)" for r
    using that assms by (intro sample_const) (simp_all add: set_py_range)
  then have "collect (\<lambda>r. sample fl h ?frame x y r i) (py_range 1 radius)
             = Inr (replicate (nat (radius - 1)) (mean3 (as_real p)))"
    using collect_const [of "py_range 1 radius" "\<lambda>r. sample fl h ?frame x y r i"]
    by (simp add: length_py_range)
  then show ?thesis
    using assms(2) by (simp add: angle_avg_def average_replicate)
qed

lemma radius_avg_const:
  assumes "offsets_bounded fl" "0 \<le> r" "r \<le> x" "x + r < w" "r \<le> y" "y + r < h"
  shows "radius_avg fl h (replicate (nat h) (replicate (nat w) p)) x y r = Inr (mean3 (as_real p))"
proof -
  let ?frame = "replicate (nat h) (replicate (nat w) p)"
  have "collect (\<lambda>i. sample fl h ?frame x y r i) (py_range 0 360)
             = Inr (replicate 360 (mean3 (as_real p)))"
    using collect_const [of "py_range 0 360" "\<lambda>i. sample fl h ?frame x y r i"]
      sample_const [OF assms]
    by (simp add: length_py_range)
  then show ?thesis
    by (simp add: radius_avg_def average_replicate)
qed

lemma angle_frame_const:
  assumes "offsets_bounded fl"
    and "2 \<le> radius" "radius - 1 \<le> x" "x + radius - 1 < w" "radius - 1 \<le> y" "y + radius - 1 < h"
  shows "angle_frame_intensity fl h (replicate (nat h) (replicate (nat w) p)) x y radius =
           Inr (replicate 360 (mean3 (as_real p)))"
    and "1 \<le> compress \<Longrightarrow>
         angle_frame_intensity_compressed fl h (replicate (nat h) (replicate (nat w) p)) x y
            radius compress =
           Inr (replicate (nat ((360 + compress - 1) div compress)) (mean3 (as_real p)))"
proof -
  let ?frame = "replicate (nat h) (replicate (nat w) p)"
  let ?f = "angle_avg fl h ?frame x y radius"
  have f: "?f i = Inr (mean3 (as_real p))" for i
    by (rule angle_avg_const [OF assms])
  show "angle_frame_intensity fl h ?frame x y radius = Inr (replicate 360 (mean3 (as_real p)))"
    using collect_const [of "py_range 0 360" ?f] f
    by (simp add: angle_frame_intensity_def length_py_range)
  assume "1 \<le> compress"
  then have c: "0 < compress"
    by simp
  show "angle_frame_intensity_compressed fl h ?frame x y radius compress =
           Inr (replicate (nat ((360 + compress - 1) div compress)) (mean3 (as_real p)))"
    using collect_const [of "filter (\<lambda>i. i mod compress = 0) (py_range 0 360)" ?f] f c
      stride_count_0 [of compress 360]
    by (simp add: angle_frame_intensity_compressed_def collect_stride_filter)
qed

lemma radius_frame_const:
  assumes "offsets_bounded fl"
    and "1 \<le> radius" "radius - 1 \<le> x" "x + radius - 1 < w" "radius - 1 \<le> y" "y + radius - 1 < h"
  shows "radius_frame_intensity fl h (replicate (nat h) (replicate (nat w) p)) x y radius =
           Inr (replicate (nat (radius - 1)) (mean3 (as_real p)))"
    and "1 \<le> compress \<Longrightarrow>
         radius_frame_intensity_compressed fl h (replicate (nat h) (replicate (nat w) p)) x y
            radius compress =
           Inr (replicate (nat ((radius - 1) div compress)) (mean3 (as_real p)))"
proof -
  let ?frame = "replicate (nat h) (replicate (nat w) p)"
  let ?f = "radius_avg fl h ?frame x y"
  have f: "?f r = Inr (mean3 (as_real p))" if "r \<in> set (py_range 1 radius)" for r
    using that assms by (intro radius_avg_const) (simp_all add: set_py_range)
  show "radius_frame_intensity fl h ?frame x y radius =
           Inr (replicate (nat (radius - 1)) (mean3 (as_real p)))"
    using collect_const [of "py_range 1 radius" ?f] f
    by (simp add: radius_frame_intensity_def length_py_range)
  assume "1 \<le> compress"
  then have c: "0 < compress"
    by simp
  show "radius_frame_intensity_compressed fl h ?frame x y radius compress =
           Inr (replicate (nat ((radius - 1) div compress)) (mean3 (as_real p)))"
    using collect_const [of "filter (\<lambda>i. i mod compress = 0) (py_range 1 radius)" ?f] f c
      stride_count_1 [of compress radius] assms(2)
    by (simp add: radius_frame_intensity_compressed_def collect_stride_filter)
qed

text \<open>
  Claim C6, as stated: the compressed angular profile has \<open>360 // compress\<close> entries.
  With \<open>compress = 7\<close> the angles kept are 0, 7, ..., 357: 52 entries, and
  \<open>360 // 7 = 51\<close>.
\<close>

theorem C6_angular_length_counterexample:
  "angle_frame_intensity_compressed exact_arith 9 grey_9x9 4 4 4 7 = Inr (replicate 52 6) \<and>
   length (replicate 52 (6::real)) \<noteq> nat (360 div 7)"
  using angle_frame_const(2) [OF exact_bounded, where radius = 4 and x = 4 and w = 9 and y = 4
      and h = 9 and p = "(6, 6, 6)" and compress = 7]
  by (simp add: grey_9x9_def mean3_def as_real_def)

text \<open>
  Claim C6, amended: for \<open>R \<ge> 2\<close> and \<open>compress \<ge> 1\<close>, a profile that is computed
  has length 360 (angular), \<open>ceil(360 / compress)\<close> (angular, compressed; this is
  \<open>360 // compress\<close> exactly when \<open>compress\<close> divides 360), \<open>R - 1\<close> (radial) and
  \<open>(R - 1) // compress\<close> (radial, compressed).
\<close>

theorem C6_profile_lengths:
  assumes "2 \<le> radius" "1 \<le> compress"
  shows "(angle_frame_intensity fl h frame x y radius = Inr va \<longrightarrow> length va = 360) \<and>
         (angle_frame_intensity_compressed fl h frame x y radius compress = Inr vb \<longrightarrow>
            length vb = nat ((360 + compress - 1) div compress)) \<and>
         (radius_frame_intensity fl h frame x y radius = Inr vc \<longrightarrow> length vc = nat (radius - 1)) \<and>
         (radius_frame_intensity_compressed fl h frame x y radius compress = Inr vd \<longrightarrow>
            length vd = nat ((radius - 1) div compress))"
proof -
  from assms have c: "0 < compress" "compress \<noteq> 0" "1 \<le> radius"
    by simp_all
  show ?thesis
    using stride_count_0 [OF c(1), of 360] stride_count_1 [OF c(1) c(3)]
    by (auto simp: angle_frame_intensity_def angle_frame_intensity_compressed_def
          radius_frame_intensity_def radius_frame_intensity_compressed_def
          collect_stride_filter [OF c(2)] length_py_range dest!: collect_length)
qed

theorem C6_profile_lengths_witness:
  "(2::int) \<le> 4 \<and> (1::int) \<le> 2 \<and>
   angle_frame_intensity exact_arith 9 grey_9x9 4 4 4 = Inr (replicate 360 6) \<and>
   angle_frame_intensity_compressed exact_arith 9 grey_9x9 4 4 4 2 = Inr (replicate 180 6) \<and>
   radius_frame_intensity exact_arith 9 grey_9x9 4 4 4 = Inr (replicate 3 6) \<and>
   radius_frame_intensity_compressed exact_arith 9 grey_9x9 4 4 4 2 = Inr (replicate 1 6) \<and>
   length (replicate 360 (6::real)) = 360 \<and>
   length (replicate 180 (6::real)) = nat ((360 + 2 - 1) div 2) \<and>
   length (replicate 3 (6::real)) = nat (4 - 1) \<and>
   length (replicate 1 (6::real)) = nat ((4 - 1) div 2)"
  using C6_profile_lengths [of 4 2 exact_arith 9 grey_9x9 4 4 "replicate 360 6" "replicate 180 6"
      "replicate 3 6" "replicate 1 6"]
    angle_frame_const(1) [OF exact_bounded, where radius = 4 and x = 4 and w = 9 and y = 4
      and h = 9 and p = "(6, 6, 6)"]
    angle_frame_const(2) [OF exact_bounded, where radius = 4 and x = 4 and w = 9 and y = 4
      and h = 9 and p = "(6, 6, 6)" and compress = 2]
    radius_frame_const(1) [OF exact_bounded, where radius = 4 and x = 4 and w = 9 and y = 4
      and h = 9 and p = "(6, 6, 6)"]
    radius_frame_const(2) [OF exact_bounded, where radius = 4 and x = 4 and w = 9 and y = 4
      and h = 9 and p = "(6, 6, 6)" and compress = 2]
  by (simp add: grey_9x9_def mean3_def as_real_def)

section \<open>The fps argument and the progress bar\<close>

lemma bar_update_ok: "0 \<le> k \<Longrightarrow> k \<le> m \<Longrightarrow> bar_update m k = Inr ()"
  by (simp add: bar_update_def)

lemma bar_update_error: "bar_update m k = Inl e \<Longrightarrow> e = ValueError"
  by (simp add: bar_update_def split: if_splits)



text \<open>
  A change of the maximum leaves the result of a frame loop as it is, or one of the two
  results is the ValueError of the bar.
\<close>

lemma xy_loop_only_bar_errors:
  "xy_loop m body frames k = xy_loop m' body frames k \<or>
   xy_loop m body frames k = Inl ValueError \<or> xy_loop m' body frames k = Inl ValueError"
proof (induction frames arbitrary: k)
  case Nil
  then show ?case by simp
next
  case (Cons frame rest)
  from Cons.IH [of "k + 1"] show ?case
    by (auto simp: bar_update_def split: sum.splits)
qed

lemma profile_loop_only_bar_errors:
  "profile_loop m body coords frames k = profile_loop m' body coords frames k \<or>
   profile_loop m body coords frames k = Inl ValueError \<or>
   profile_loop m' body coords frames k = Inl ValueError"
proof (induction frames arbitrary: k)
  case Nil
  then show ?case by simp
next
  case (Cons frame rest)
  from Cons.IH [of "k + 1"] show ?case
    by (auto simp: bar_update_def split: sum.splits prod.splits)
qed

text \<open>
  While the bar accepts every update, \<open>find_center_circle_pos\<close> returns what
  \<open>center_loop\<close> computes.
\<close>

lemma center_bar_loop_within_bar:
  "0 \<le> k \<Longrightarrow> k + int (length ds) \<le> m \<Longrightarrow>
   center_bar_loop m ds k coords = Inr (center_loop ds coords)"
proof (induction ds arbitrary: k coords)
  case Nil
  then show ?case by simp
next
  case (Cons circles rest)
  then have "bar_update m (k + 1) = Inr ()"
    by (simp add: bar_update_def)
  moreover have "center_bar_loop m rest (k + 1) c = Inr (center_loop rest c)" for c
    using Cons.prems by (intro Cons.IH) simp_all
  ultimately show ?case
    by (simp split: list.splits prod.splits)
qed

lemma bar_max_examples:
  "bar_max exact_arith clip_4s (1 / 2) = 3" "bar_max exact_arith clip_4s 1 = 5"
  "bar_max exact_arith clip_4s 2 = 9"
  "bar_max exact_arith grey_clip_4s (1 / 2) = 3" "bar_max exact_arith grey_clip_4s 1 = 5"
  "bar_max exact_arith grey_clip_4s 2 = 9"
  by (simp_all add: bar_max_def exact_arith_def clip_4s_def grey_clip_4s_def py_int_def)

lemma frames_examples:
  "iter_frames clip_4s 1 = [frame_2x3, frame_2x3, frame_2x3, frame_2x3]"
  "iter_frames grey_clip_4s 1 = [grey_9x9, grey_9x9, grey_9x9, grey_9x9]"
  "get_frame grey_clip_4s 0 = grey_9x9"
  by (simp_all add: clip_4s_def grey_clip_4s_def eval_nat_numeral)








text \<open>
  By contrast \<open>find_xy_intensities\<close> hands \<open>fps\<close> to \<open>iter_frames\<close>, and its result
  follows the rate.
\<close>

lemma frames_at_2: "iter_frames clip_4s 2 = replicate 8 frame_2x3"
  by (simp add: clip_4s_def)

lemma find_xy_intensities_follows_fps:
  "find_xy_intensities exact_arith clip_4s False 1 \<noteq> find_xy_intensities exact_arith clip_4s False 2"
  by (simp add: find_xy_intensities_def bar_max_examples frames_examples frames_at_2
        bar_update_def eval_nat_numeral xy_result_def py_index_def)

end
